theory Spec2Isabelle
  imports Complex_Main
begin

section \<open>Python strings\<close>

text \<open>
  The material labels of \<^verbatim>\<open>preprocess.py\<close> are Python strings. They are modelled as
  \<^typ>\<open>string\<close> over the ASCII range: \<^verbatim>\<open>str.upper\<close> maps the letters a..z to A..Z and
  leaves every other character alone, \<^verbatim>\<open>str.strip\<close> removes the ASCII white space
  characters from both ends, \<^verbatim>\<open>str.isdigit\<close> holds of a non-empty string of the
  digits 0..9, and \<^verbatim>\<open>x in s\<close> is substring containment.
\<close>

definition isspace :: "char \<Rightarrow> bool" where
  "isspace c = (c \<in> set [CHR 0x09, CHR 0x0A, CHR 0x0B, CHR 0x0C, CHR 0x0D,
                          CHR 0x1C, CHR 0x1D, CHR 0x1E, CHR 0x1F, CHR '' ''])"

definition upper_char :: "char \<Rightarrow> char" where
  "upper_char c =
     (case map_of (zip ''abcdefghijklmnopqrstuvwxyz'' ''ABCDEFGHIJKLMNOPQRSTUVWXYZ'') c of
        Some u \<Rightarrow> u
      | None \<Rightarrow> c)"

definition upper :: "string \<Rightarrow> string" where
  "upper s = map upper_char s"

definition strip :: "string \<Rightarrow> string" where
  "strip s = rev (dropWhile isspace (rev (dropWhile isspace s)))"

definition isdigit :: "string \<Rightarrow> bool" where
  "isdigit s = (s \<noteq> [] \<and> list_all (\<lambda>c. c \<in> set ''0123456789'') s)"

fun startswith :: "string \<Rightarrow> string \<Rightarrow> bool" where
  "startswith s [] = True"
| "startswith [] (x # xs) = False"
| "startswith (c # cs) (x # xs) = (c = x \<and> startswith cs xs)"

text \<open>\<open>str_in x s\<close> is Python's \<^verbatim>\<open>x in s\<close> on two strings.\<close>

fun str_in :: "string \<Rightarrow> string \<Rightarrow> bool" where
  "str_in x [] = (x = [])"
| "str_in x (c # cs) = (startswith (c # cs) x \<or> str_in x cs)"

text \<open>\<open>any_in xs s\<close> is \<^verbatim>\<open>any(x in s for x in xs)\<close>.\<close>

definition any_in :: "string list \<Rightarrow> string \<Rightarrow> bool" where
  "any_in xs s = list_ex (\<lambda>x. str_in x s) xs"


section \<open>The scoring functions\<close>


text \<open>
  \<open>calculate_material_score\<close> takes \<^verbatim>\<open>str(material)\<close>; the first matching family
  decides.
\<close>

definition calculate_material_score :: "string \<Rightarrow> int" where
  "calculate_material_score material =
     (let material_upper = strip (upper material) in
      if any_in [''CAST IRON'', ''C.I.'', ''CIP'', ''CI''] material_upper then 100
      else if any_in [''CONCRETE'', ''CONC'', ''CON'', ''RCP'', ''CMP''] material_upper then 70
      else if any_in [''STEEL''] material_upper then 60
      else if any_in [''VCP'', ''VITRIFIED'', ''CLAY'', ''V.C.P''] material_upper then 50
      else if any_in [''ASBESTOS'', ''AC'', ''A/C''] material_upper then 36
      else if any_in [''DUCTILE'', ''DIP'', ''D.I.P''] material_upper then 18
      else if any_in [''PVC'', ''PLASTIC'', ''POLY'', ''HDPE'', ''PE'', ''POLYVINYL'',
                      ''POLYETHYLENE''] material_upper then 10
      else 50)"

definition calculate_risk_category :: "real \<Rightarrow> string" where
  "calculate_risk_category risk_score =
     (if risk_score \<le> 40 then ''Low''
      else if risk_score \<le> 60 then ''Medium''
      else if risk_score \<le> 80 then ''High''
      else ''Critical'')"


section \<open>Canonical material names\<close>

text \<open>
  The argument of \<open>standardize_material_name\<close> is \<open>None\<close> where \<^verbatim>\<open>pd.isna(material)\<close>
  holds and \<open>Some (str(material))\<close> otherwise.
\<close>

definition standardize_material_name :: "string option \<Rightarrow> string" where
  "standardize_material_name material =
     (case material of
        None \<Rightarrow> ''Unknown''
      | Some m \<Rightarrow>
         (let material_upper = strip (upper m) in
          if (isdigit material_upper \<or> material_upper = [] \<or> length material_upper \<le> 2)
             \<and> material_upper \<notin> set [''CI'', ''DI'', ''AC'', ''VC'', ''CP'']
          then ''Unknown''
          else if any_in [''VCP'', ''VITRIFIED'', ''CLAY'', ''V.C.P'', ''TCP'', ''TERRA COTTA'']
                    material_upper then ''VCP''
          else if material_upper \<in> set [''VC'', ''V.C.'', ''BCP''] then ''VCP''
          else if any_in [''CONCRETE'', ''CONC'', ''RCP'', ''NRCP'', ''CMP''] material_upper
          then (if str_in ''RCP'' material_upper \<or> str_in ''REINFORCED'' material_upper
                then ''Concrete (Reinforced)'' else ''Concrete'')
          else if material_upper \<in> set [''CP'', ''C.P.'', ''CON'', ''CONC.'', ''CEMENT'']
          then ''Concrete''
          else if any_in [''CAST IRON'', ''C.I.'', ''CIP''] material_upper then ''Cast Iron''
          else if material_upper = ''CI'' then ''Cast Iron''
          else if any_in [''DUCTILE'', ''DIP'', ''D.I.P''] material_upper then ''Ductile Iron''
          else if material_upper = ''DI'' then ''Ductile Iron''
          else if any_in [''PVC'', ''POLYVINYL'', ''PVCP'', ''C900'', ''ABS''] material_upper
          then ''PVC''
          else if any_in [''HDPE'', ''HPDE'', ''POLYETHYLENE'', ''PE'', ''PLASTIC'', ''HDP'']
                    material_upper then ''HDPE''
          else if str_in ''STEEL'' material_upper \<or> material_upper = ''METAL'' then ''Steel''
          else if str_in ''BRICK'' material_upper \<or> material_upper = ''B/C'' then ''Brick''
          else if any_in [''ASBESTOS'', ''AC'', ''A/C'', ''TRANSITE''] material_upper
          then ''Asbestos Cement''
          else if any_in [''FIBERGLASS'', ''FRP'', ''TECHITE''] material_upper
          then ''Fiberglass''
          else if any_in [''UNKNOWN'', ''UKN'', ''UNK'', ''OTHER'', ''N/A'', ''NONE'', ''GREASE'',
                          ''HAIR'', ''BLUEBELL''] material_upper then ''Unknown''
          else strip m))"

text \<open>The twelve canonical labels of the data model.\<close>

definition canonical_labels :: "string list" where
  "canonical_labels =
     [''Cast Iron'', ''Concrete'', ''Concrete (Reinforced)'', ''VCP'', ''Ductile Iron'', ''PVC'',
      ''HDPE'', ''Steel'', ''Brick'', ''Asbestos Cement'', ''Fiberglass'', ''Unknown'']"


section \<open>Repairing pipe ages\<close>

text \<open>
  \<open>fix_pipe_age\<close> reads two things of its row: \<^verbatim>\<open>row['pipe_age_years']\<close>, a float of the
  coerced age column (\<open>None\<close> is NaN), and, for an age above 1800 only, the year of
  \<^verbatim>\<open>pd.to_datetime(row['spill_date'], errors='coerce')\<close>. The second argument is that
  year, \<open>None\<close> where the date is NaT or where reading it raises (the bare
  \<^verbatim>\<open>except\<close> swallows the exception and the age is returned as it is).
\<close>

definition fix_pipe_age :: "real option \<Rightarrow> int option \<Rightarrow> real option" where
  "fix_pipe_age age spill_year =
     (case age of
        None \<Rightarrow> None
      | Some a \<Rightarrow>
          if a \<le> 150 then Some a
          else if a > 1800 then
            (case spill_year of
               None \<Rightarrow> Some a
             | Some y \<Rightarrow>
                 (let calculated_age = real_of_int y - a in
                  if 0 < calculated_age \<and> calculated_age \<le> 150 then Some calculated_age
                  else Some a))
          else if 150 < a \<and> a < 1800 then
            (let age_in_years = a / 12 in
             if 0 < age_in_years \<and> age_in_years \<le> 150 then Some age_in_years else Some a)
          else Some a)"


section \<open>Tables\<close>

text \<open>
  A pandas DataFrame is modelled by its list of column names, in order, and its list of
  rows, in order; a row gives every column name its entry. An entry is a number, a
  string, or missing (NaN / None): \<^verbatim>\<open>pd.isna\<close> holds of \<open>NA\<close> only. What a row says
  about a name that is not a column of the table is never read.
\<close>

datatype cell = Num real | Str string | NA

type_synonym row = "string \<Rightarrow> cell"

record table =
  columns :: "string list"
  rows :: "row list"


text \<open>
  Library functions of pandas and Python that the pipeline calls on single entries are
  parameters of the model:
  \<^item> \<open>to_numeric\<close>: what \<^verbatim>\<open>pd.to_numeric(..., errors='coerce')\<close> makes of a string
    entry, \<open>None\<close> where it does not parse (NaN);
  \<^item> \<open>to_datetime_year\<close>: the year of \<^verbatim>\<open>pd.to_datetime(..., errors='coerce')\<close>,
    \<open>None\<close> where the result is NaT;
  \<^item> \<open>str_num\<close>: Python's \<^verbatim>\<open>str\<close> of a number.
\<close>

record pylib =
  to_numeric :: "string \<Rightarrow> real option"
  to_datetime_year :: "cell \<Rightarrow> int option"
  str_num :: "real \<Rightarrow> string"

definition isna :: "cell \<Rightarrow> bool" where
  "isna c = (case c of NA \<Rightarrow> True | _ \<Rightarrow> False)"

definition coerce_numeric :: "pylib \<Rightarrow> cell \<Rightarrow> cell" where
  "coerce_numeric lib c =
     (case c of
        Num x \<Rightarrow> Num x
      | Str s \<Rightarrow> (case to_numeric lib s of Some x \<Rightarrow> Num x | None \<Rightarrow> NA)
      | NA \<Rightarrow> NA)"

text \<open>An entry of a float column as a float, and back.\<close>

definition num_of :: "cell \<Rightarrow> real option" where
  "num_of c = (case c of Num x \<Rightarrow> Some x | _ \<Rightarrow> None)"

definition cell_of :: "real option \<Rightarrow> cell" where
  "cell_of v = (case v of Some x \<Rightarrow> Num x | None \<Rightarrow> NA)"


text \<open>
  \<^verbatim>\<open>df[c] = ...\<close> with a value computed row by row: an existing column is overwritten
  in place, a new one is appended as the last column.
\<close>

definition assign :: "string \<Rightarrow> (row \<Rightarrow> cell) \<Rightarrow> table \<Rightarrow> table" where
  "assign c f df =
     \<lparr>columns = (if c \<in> set (columns df) then columns df else columns df @ [c]),
      rows = map (\<lambda>r. r(c := f r)) (rows df)\<rparr>"



section \<open>The preprocessing pipeline\<close>

text \<open>
  \<open>preprocess_data\<close> is modelled from the DataFrame that \<^verbatim>\<open>pd.read_csv\<close> returns to the
  DataFrame that the function returns; what it prints and the CSV file it may write are
  left out.
\<close>









section \<open>Names and sample inputs used in the statements\<close>





text \<open>
  The seven rules of \<open>calculate_material_score\<close> as a table, in the order of the source:
  the tokens of a family and its score.
\<close>

definition material_rules :: "(string list \<times> int) list" where
  "material_rules =
     [([''CAST IRON'', ''C.I.'', ''CIP'', ''CI''], 100),
      ([''CONCRETE'', ''CONC'', ''CON'', ''RCP'', ''CMP''], 70),
      ([''STEEL''], 60),
      ([''VCP'', ''VITRIFIED'', ''CLAY'', ''V.C.P''], 50),
      ([''ASBESTOS'', ''AC'', ''A/C''], 36),
      ([''DUCTILE'', ''DIP'', ''D.I.P''], 18),
      ([''PVC'', ''PLASTIC'', ''POLY'', ''HDPE'', ''PE'', ''POLYVINYL'', ''POLYETHYLENE''], 10)]"

text \<open>\<open>matching_rules m\<close>: the rules of the table with a token in the upper-cased label.\<close>

definition matching_rules :: "string \<Rightarrow> (string list \<times> int) list" where
  "matching_rules material =
     filter (\<lambda>rule. any_in (fst rule) (strip (upper material))) material_rules"







section \<open>Lists related row by row\<close>

lemma list_all2_map_same:
  "(\<And>x. x \<in> set xs \<Longrightarrow> P (f x) x) \<Longrightarrow> list_all2 P (map f xs) xs"
  by (simp add: list_all2_map1 list.rel_refl_strong)






section \<open>Facts about strings and the scoring functions\<close>









lemma calculate_material_score_rules:
  "calculate_material_score m = (case matching_rules m of [] \<Rightarrow> 50 | rule # _ \<Rightarrow> snd rule)"
  by (simp add: calculate_material_score_def matching_rules_def material_rules_def Let_def)




lemma fix_pipe_age_None [simp]: "fix_pipe_age a y = None \<longleftrightarrow> a = None"
  by (cases a; cases y) (simp_all add: fix_pipe_age_def Let_def del: not_None_eq)


section \<open>Facts about the stages of the pipeline\<close>

lemma columns_assign [simp]:
  "columns (assign c f df) = (if c \<in> set (columns df) then columns df else columns df @ [c])"
  by (simp add: assign_def)

lemma rows_assign [simp]: "rows (assign c f df) = map (\<lambda>r. r(c := f r)) (rows df)"
  by (simp add: assign_def)




lemma isna_simps [simp]: "isna NA" "\<not> isna (Num x)" "\<not> isna (Str s)"
  by (simp_all add: isna_def)

lemma coerce_numeric_cases: "coerce_numeric lib c = NA \<or> (\<exists>a. coerce_numeric lib c = Num a)"
  by (simp add: coerce_numeric_def split: cell.splits option.splits)

lemma cell_of_num_of_coerce [simp]: "cell_of (num_of (coerce_numeric lib c)) = coerce_numeric lib c"
  using coerce_numeric_cases [of lib c] by (auto simp: cell_of_def num_of_def)

lemma isna_cell_of [simp]: "isna (cell_of v) = (v = None)"
  by (cases v) (simp_all add: cell_of_def)

lemma num_of_None_coerce [simp]: "(num_of (coerce_numeric lib c) = None) = isna (coerce_numeric lib c)"
  using coerce_numeric_cases [of lib c] by (auto simp: num_of_def)














section \<open>The claims\<close>

subsection \<open>Age score\<close>




subsection \<open>Risk score\<close>




subsection \<open>Risk category\<close>

text \<open>
  C3. The risk category partitions the scores into four contiguous bands that do not
  overlap: it is Low exactly for \<open>s \<le> 40\<close>, Medium exactly for \<open>40 < s \<le> 60\<close>, High
  exactly for \<open>60 < s \<le> 80\<close> and Critical exactly for \<open>s > 80\<close>; the boundary values
  40, 60 and 80 belong to the lower band.
\<close>

theorem calculate_risk_category_bands:
  "(calculate_risk_category s = ''Low'') = (s \<le> 40) \<and>
   (calculate_risk_category s = ''Medium'') = (40 < s \<and> s \<le> 60) \<and>
   (calculate_risk_category s = ''High'') = (60 < s \<and> s \<le> 80) \<and>
   (calculate_risk_category s = ''Critical'') = (80 < s) \<and>
   calculate_risk_category 40 = ''Low'' \<and>
   calculate_risk_category 60 = ''Medium'' \<and>
   calculate_risk_category 80 = ''High''"
  by (auto simp: calculate_risk_category_def)


subsection \<open>Ages entered in months\<close>

text \<open>
  C4, as the specification states it, fails at the age 1800: 1800 / 12 = 150 lies in
  (0, 150], yet the age is returned as it is.
\<close>

theorem fix_pipe_age_1800_counterexample:
  "(150::real) < 1800 \<and> (1800::real) \<le> 1800 \<and> (0::real) < 1800 / 12 \<and> (1800::real) / 12 \<le> 150 \<and>
   fix_pipe_age (Some 1800) (Some 2020) = Some 1800 \<and>
   fix_pipe_age (Some 1800) (Some 2020) \<noteq> Some (1800 / 12)"
  by (simp add: fix_pipe_age_def Let_def)

text \<open>
  C4, amended. For every age \<open>a\<close> with \<open>150 < a < 1800\<close>, whatever the event date,
  \<open>fix_pipe_age\<close> reads \<open>a\<close> as months and returns \<open>a / 12\<close>, which lies in (0, 150];
  an age of exactly 1800 is returned unchanged.
\<close>

theorem fix_pipe_age_months:
  "(150 < a \<and> a < 1800 \<longrightarrow>
      fix_pipe_age (Some a) y = Some (a / 12) \<and> 0 < a / 12 \<and> a / 12 \<le> 150) \<and>
   fix_pipe_age (Some 1800) y = Some 1800"
  by (cases y) (simp_all add: fix_pipe_age_def Let_def)

theorem fix_pipe_age_months_witness:
  "(150::real) < 600 \<and> (600::real) < 1800 \<and> fix_pipe_age (Some 600) (Some 2020) = Some 50"
  using fix_pipe_age_months [of 600 "Some 2020"] by simp


subsection \<open>Scoring raw and canonical labels\<close>





subsection \<open>Filtering\<close>





subsection \<open>Columns of the emitted table\<close>






subsection \<open>Canonical labels are fixed points\<close>

text \<open>
  C8. Each of the twelve canonical labels is its own canonical name.
\<close>

theorem standardize_material_name_idempotent:
  "\<forall>L\<in>set canonical_labels. standardize_material_name (Some L) = L"
proof -
  have "list_all (\<lambda>L. standardize_material_name (Some L) = L) canonical_labels"
    by code_simp
  then show ?thesis by (simp add: list_all_iff)
qed

theorem standardize_material_name_idempotent_witness:
  "''PVC'' \<in> set canonical_labels \<and> standardize_material_name (Some ''PVC'') = ''PVC'' \<and>
   ''Concrete (Reinforced)'' \<in> set canonical_labels \<and>
   standardize_material_name (Some ''Concrete (Reinforced)'') = ''Concrete (Reinforced)''"
proof -
  have h1: "''PVC'' \<in> set canonical_labels"
    and h2: "''Concrete (Reinforced)'' \<in> set canonical_labels"
    by (simp_all add: canonical_labels_def)
  show ?thesis
    using standardize_material_name_idempotent h1 h2 by blast
qed


subsection \<open>Pass-through columns and row order\<close>







subsection \<open>Labels that no scoring rule matches\<close>

text \<open>
  C10. The canonical labels Brick, Fiberglass and Unknown each score 50, and no rule of
  the scorer matches them: 50 is the default of a label that no rule matches, the first
  matching rule deciding otherwise. Brick and Fiberglass are canonical names that
  \<open>standardize_material_name\<close> produces.
\<close>

theorem calculate_material_score_unmatched:
  "calculate_material_score ''Brick'' = 50 \<and> matching_rules ''Brick'' = [] \<and>
   calculate_material_score ''Fiberglass'' = 50 \<and> matching_rules ''Fiberglass'' = [] \<and>
   calculate_material_score ''Unknown'' = 50 \<and> matching_rules ''Unknown'' = [] \<and>
   standardize_material_name (Some ''Brick'') = ''Brick'' \<and>
   standardize_material_name (Some ''Fiberglass'') = ''Fiberglass'' \<and>
   calculate_material_score m = (case matching_rules m of [] \<Rightarrow> 50 | rule # _ \<Rightarrow> snd rule)"
proof -
  have "calculate_material_score ''Brick'' = 50 \<and> matching_rules ''Brick'' = [] \<and>
        calculate_material_score ''Fiberglass'' = 50 \<and> matching_rules ''Fiberglass'' = [] \<and>
        calculate_material_score ''Unknown'' = 50 \<and> matching_rules ''Unknown'' = [] \<and>
        standardize_material_name (Some ''Brick'') = ''Brick'' \<and>
        standardize_material_name (Some ''Fiberglass'') = ''Fiberglass''"
    by code_simp
  then show ?thesis
    using calculate_material_score_rules [of m] by blast
qed

end
